theory Spec2Isabelle
  imports Main
begin

section \<open>The ACME-DNS provider for libdns\<close>

text \<open>
  A shallow embedding of the Go package \<open>acmedns\<close>. The package exists in two
  near-identical revisions: the resource-record revision (with \<open>SetRecords\<close>,
  \<open>GetRecords\<close>, \<open>libdns.RR\<close> and the library calls \<open>strings.Trim\<close> and
  \<open>strings.TrimPrefix\<close>) and the older flat-field revision in \<open>provider.go\<close>
  (string slicing by hand, no \<open>Content-Type\<close> header). The resource-record revision
  carries the Go names; what the older revision does differently is modelled under the
  same names with the suffix \<open>_old\<close>.

  Go strings are byte sequences, and so is \<open>string\<close> here. A Go function that may
  panic returns an \<open>outcome\<close>; a Go \<open>error\<close> result is a value of the datatype
  \<open>error\<close>; the network is a parameter (\<open>world\<close>), and every call of
  \<open>client.Do\<close> is appended to an explicit log of the requests handed to the HTTP client.
\<close>

subsection \<open>Errors, panics, outcomes\<close>

text \<open>
  One constructor for each \<open>fmt.Errorf\<close> of the package; \<open>External\<close> stands for an
  error value made by a Go library (\<open>net/http\<close>, \<open>net/url\<close>, \<open>encoding/json\<close>), with
  its message. \<open>MarshallingJSON\<close> and \<open>ReadingResponse\<close> wrap their cause (\<open>%w\<close>).
\<close>

datatype error =
    ConfigNotFound string
  | CannotBeEmpty string
  | MarshallingJSON error
  | ReadingResponse error
  | ResponseCode int
  | OnlyTXTSupported
  | GetNotSupported
  | External string

datatype panic = SliceBoundsOutOfRange | NilPointerDereference

datatype 'a outcome = Returns 'a | Panics panic

text \<open>Decimal rendering of an integer, as \<open>%d\<close> prints it.\<close>

fun digits :: "nat \<Rightarrow> string" where
  "digits n =
     (if n < 10 then [char_of (48 + n)]
      else digits (n div 10) @ [char_of (48 + n mod 10)])"

definition Itoa :: "int \<Rightarrow> string" where
  "Itoa i = (if i < 0 then CHR ''-'' # digits (nat (- i)) else digits (nat i))"

text \<open>The message of an error value (Go's \<open>err.Error()\<close>).\<close>

fun Error :: "error \<Rightarrow> string" where
  "Error (ConfigNotFound domain) = ''Config for domain '' @ domain @ '' not found''"
| "Error (CannotBeEmpty field) = field @ '' cannot be empty''"
| "Error (MarshallingJSON err) = ''Error while marshalling JSON: '' @ Error err"
| "Error (ReadingResponse err) = ''Error while reading response: '' @ Error err"
| "Error (ResponseCode code) =
     ''Updating ACME-DNS record resulted in response code '' @ Itoa code"
| "Error OnlyTXTSupported = ''joohoi_acme_dns provider only supports adding TXT records''"
| "Error GetNotSupported = ''acmedns provider does not support getting records''"
| "Error (External msg) = msg"

subsection \<open>Data model\<close>

text \<open>
  The three Go structs share field names; the fields carry a prefix here
  (\<open>cfg_\<close> for \<open>DomainConfig\<close>, \<open>p_\<close> for \<open>Provider\<close>, \<open>acc_\<close> for \<open>account\<close>).
  A Go map that may be \<open>nil\<close> is an optional map: \<open>None\<close> is the nil map,
  \<open>Some m\<close> a map that was made, empty or not.
\<close>

definition acmePrefix :: string where
  "acmePrefix = ''_acme-challenge.''"

record DomainConfig =
  cfg_Username :: string
  cfg_Password :: string
  cfg_Subdomain :: string
  cfg_FullDomain :: string
  cfg_ServerURL :: string

record Provider =
  p_Configs :: "(string \<rightharpoonup> DomainConfig) option"
  p_Username :: string
  p_Password :: string
  p_Subdomain :: string
  p_ServerURL :: string

record account =
  acc_Username :: string
  acc_Password :: string
  acc_Subdomain :: string
  acc_ServerURL :: string

text \<open>
  \<open>libdns.RR\<close>. A \<open>libdns.Record\<close> is an interface whose only method is \<open>RR()\<close>;
  the package reads a record through that method alone, so a record of the batch is
  modelled by the \<open>RR\<close> it returns, and the \<open>acmeDNSRecord\<close> the package builds by
  the \<open>RR\<close> it wraps. A batch holds records, no nil interface values.
  \<open>rr_TTL\<close> is a \<open>time.Duration\<close>, an integer.
\<close>

record RR =
  rr_Name :: string
  rr_TTL :: int
  rr_Type :: string
  rr_Data :: string

text \<open>The \<open>libdns.Record\<close> struct of the older revision.\<close>

record Record_old =
  rec_ID :: string
  rec_Type :: string
  rec_Name :: string
  rec_Value :: string
  rec_TTL :: int
  rec_Priority :: int

subsection \<open>Library functions\<close>

text \<open>
  \<open>strings.Trim s cutset\<close> removes every leading and every trailing character of
  \<open>s\<close> that occurs in \<open>cutset\<close>; \<open>strings.TrimPrefix s prefix\<close> removes
  \<open>prefix\<close> once when \<open>s\<close> starts with it. The package calls \<open>Trim\<close> with the
  ASCII cutset \<open>"."\<close>, for which bytes and code points coincide.
\<close>

definition Trim :: "string \<Rightarrow> string \<Rightarrow> string" where
  "Trim s cutset =
     rev (dropWhile (\<lambda>c. c \<in> set cutset) (rev (dropWhile (\<lambda>c. c \<in> set cutset) s)))"

definition HasPrefix :: "string \<Rightarrow> string \<Rightarrow> bool" where
  "HasPrefix s prefix = (take (length prefix) s = prefix)"

definition TrimPrefix :: "string \<Rightarrow> string \<Rightarrow> string" where
  "TrimPrefix s prefix = (if HasPrefix s prefix then drop (length prefix) s else s)"

text \<open>
  Modelled from the spec: \<open>libdns.AbsoluteName\<close> belongs to the package
  \<open>github.com/libdns/libdns\<close>, whose source is not part of this repository. The
  specification gives the value as the concatenation of the record name, a dot and the
  zone. The concrete runs below use non-empty zones and plain relative names (not
  empty, not \<open>@\<close>, no trailing dot).
\<close>

definition AbsoluteName :: "string \<Rightarrow> string \<Rightarrow> string" where
  "AbsoluteName name zone = name @ ''.'' @ zone"

text \<open>
  \<open>utf8.DecodeRuneInString\<close>, less the value of the rune: \<open>Some n\<close> when the
  string starts with a well-formed encoding of \<open>n\<close> bytes (one for a byte below
  \<open>0x80\<close>, else two to four), \<open>None\<close> where the library returns \<open>RuneError\<close>
  with width one, or width zero for the empty string. \<open>first_byte\<close> is its table
  for the leading bytes from \<open>0x80\<close> on: the width the byte announces and the range
  allowed for the byte after it; the bytes after that are in \<open>80\<close> to \<open>BF\<close>.
\<close>

definition first_byte :: "nat \<Rightarrow> (nat \<times> nat \<times> nat) option" where
  "first_byte b =
     (if 0xC2 \<le> b \<and> b \<le> 0xDF then Some (2, 0x80, 0xBF)
      else if b = 0xE0 then Some (3, 0xA0, 0xBF)
      else if 0xE1 \<le> b \<and> b \<le> 0xEC then Some (3, 0x80, 0xBF)
      else if b = 0xED then Some (3, 0x80, 0x9F)
      else if 0xEE \<le> b \<and> b \<le> 0xEF then Some (3, 0x80, 0xBF)
      else if b = 0xF0 then Some (4, 0x90, 0xBF)
      else if 0xF1 \<le> b \<and> b \<le> 0xF3 then Some (4, 0x80, 0xBF)
      else if b = 0xF4 then Some (4, 0x80, 0x8F)
      else None)"

definition between :: "nat \<Rightarrow> nat \<Rightarrow> char \<Rightarrow> bool" where
  "between lo hi c = (lo \<le> of_char c \<and> (of_char c :: nat) \<le> hi)"

definition DecodeRuneInString :: "string \<Rightarrow> nat option" where
  "DecodeRuneInString s =
     (case s of
        [] \<Rightarrow> None
      | c # cs \<Rightarrow>
          if (of_char c :: nat) < 0x80 then Some 1
          else
            (case first_byte (of_char c) of
               None \<Rightarrow> None
             | Some (sz, lo, hi) \<Rightarrow>
                 if length s < sz then None
                 else if \<not> between lo hi (s ! 1) then None
                 else if sz \<le> 2 then Some 2
                 else if \<not> between 0x80 0xBF (s ! 2) then None
                 else if sz \<le> 3 then Some 3
                 else if \<not> between 0x80 0xBF (s ! 3) then None
                 else Some 4))"

text \<open>\<open>utf8.ValidString\<close>: the string is a sequence of well-formed encodings.\<close>

fun ValidString :: "string \<Rightarrow> bool" where
  "ValidString [] = True"
| "ValidString (c # cs) =
     (if (of_char c :: nat) < 0x80 then ValidString cs
      else
        (case DecodeRuneInString (c # cs) of
           None \<Rightarrow> False
         | Some n \<Rightarrow> ValidString (drop (n - 1) cs)))"

text \<open>
  The body handed to \<open>json.Marshal\<close> is a \<open>map[string]string\<close>; its encoding is the
  JSON object with one string member for each key, written in the order of the keys.
  The object is kept as a value (members in key order, strings as UTF-8) instead of
  its text, so the escapes of the text, which denote the same value, do not show.
  \<open>json_string\<close> is the value the encoder writes for a Go string: it walks the bytes,
  keeps every well-formed encoding and writes U+FFFD (the bytes \<open>EF BF BD\<close>) for each
  byte that starts none. \<open>json.Marshal\<close> has an error result, which the package
  checks; for a map of strings it is never an error.
\<close>

fun json_string :: "string \<Rightarrow> string" where
  "json_string [] = []"
| "json_string (c # cs) =
     (if (of_char c :: nat) < 0x80 then c # json_string cs
      else
        (case DecodeRuneInString (c # cs) of
           None \<Rightarrow> [CHR 0xEF, CHR 0xBF, CHR 0xBD] @ json_string cs
         | Some n \<Rightarrow> c # take (n - 1) cs @ json_string (drop (n - 1) cs)))"

datatype json = JObject "(string \<times> string) list"

definition json_Marshal :: "(string \<times> string) list \<Rightarrow> error + json" where
  "json_Marshal m = Inr (JObject (map (\<lambda>(k, v). (json_string k, json_string v)) m))"

record request =
  req_Method :: string
  req_URL :: string
  req_Header :: "(string \<times> string) list"
  req_Body :: json

text \<open>
  \<open>Header.Set\<close> replaces the value stored under a key, or adds the key. The three
  keys the package sets are already in canonical form.
\<close>

fun Header_Set :: "string \<Rightarrow> string \<Rightarrow> (string \<times> string) list \<Rightarrow> (string \<times> string) list" where
  "Header_Set k v [] = [(k, v)]"
| "Header_Set k v ((k', v') # h) =
     (if k' = k then (k, v) # h else (k', v') # Header_Set k v h)"

text \<open>
  What the package cannot decide but its libraries and the network do:
  \<^item> \<open>url_Parse\<close>: whether \<open>http.NewRequest\<close> accepts a URL (\<open>None\<close>) or rejects it
    with a message;
  \<^item> \<open>client_Do\<close>: the answer to a request, given the requests made before it: a
    transport error (resolution, connection, the 30 second timeout) or the status
    code of the response.
\<close>

record world =
  url_Parse :: "string \<Rightarrow> string option"
  client_Do :: "request list \<Rightarrow> request \<Rightarrow> error + int"

text \<open>
  \<open>http.NewRequest\<close>: an error and no request when the URL does not parse (the
  method \<open>POST\<close> is always valid), else a request with an empty header.
\<close>

definition http_NewRequest :: "world \<Rightarrow> string \<Rightarrow> string \<Rightarrow> json \<Rightarrow> error + request" where
  "http_NewRequest w method url body =
     (case url_Parse w url of
        Some msg \<Rightarrow> Inl (External msg)
      | None \<Rightarrow>
          Inr \<lparr>req_Method = method, req_URL = url, req_Header = [], req_Body = body\<rparr>)"

subsection \<open>selectAccount\<close>

definition selectAccount :: "Provider \<Rightarrow> string \<Rightarrow> string \<Rightarrow> error + account" where
  "selectAccount p zone name =
     (case p_Configs p of
        Some configs \<Rightarrow>
          (let domain = AbsoluteName name zone;
               domain = Trim domain ''.'';
               domain = TrimPrefix domain acmePrefix
           in case configs domain of
                None \<Rightarrow> Inl (ConfigNotFound domain)
              | Some config \<Rightarrow>
                  Inr \<lparr>acc_Username = cfg_Username config,
                       acc_Password = cfg_Password config,
                       acc_Subdomain = cfg_Subdomain config,
                       acc_ServerURL = cfg_ServerURL config\<rparr>)
      | None \<Rightarrow>
          if p_Username p = [] then Inl (CannotBeEmpty ''Username'')
          else if p_Password p = [] then Inl (CannotBeEmpty ''Password'')
          else if p_Subdomain p = [] then Inl (CannotBeEmpty ''Subdomain'')
          else if p_ServerURL p = [] then Inl (CannotBeEmpty ''ServerURL'')
          else
            Inr \<lparr>acc_Username = p_Username p,
                 acc_Password = p_Password p,
                 acc_Subdomain = p_Subdomain p,
                 acc_ServerURL = p_ServerURL p\<rparr>)"

text \<open>
  The older revision slices by hand. \<open>domain[len(domain)-1:]\<close> is safe, since
  \<open>domain\<close> holds at least the dot; \<open>domain[:len(acmePrefix)]\<close> panics when
  \<open>domain\<close> is shorter than the prefix.
\<close>

definition selectAccount_old :: "Provider \<Rightarrow> string \<Rightarrow> string \<Rightarrow> (error + account) outcome" where
  "selectAccount_old p zone name =
     (case p_Configs p of
        Some configs \<Rightarrow>
          (let domain = name @ ''.'' @ zone;
               domain = (if drop (length domain - 1) domain = ''.''
                         then take (length domain - 1) domain else domain)
           in if length domain < length acmePrefix then Panics SliceBoundsOutOfRange
              else
                (let domain = (if take (length acmePrefix) domain = acmePrefix
                               then drop (length acmePrefix) domain else domain)
                 in case configs domain of
                      None \<Rightarrow> Returns (Inl (ConfigNotFound domain))
                    | Some config \<Rightarrow>
                        Returns (Inr \<lparr>acc_Username = cfg_Username config,
                                      acc_Password = cfg_Password config,
                                      acc_Subdomain = cfg_Subdomain config,
                                      acc_ServerURL = cfg_ServerURL config\<rparr>)))
      | None \<Rightarrow>
          if p_Username p = [] then Returns (Inl (CannotBeEmpty ''Username''))
          else if p_Password p = [] then Returns (Inl (CannotBeEmpty ''Password''))
          else if p_Subdomain p = [] then Returns (Inl (CannotBeEmpty ''Subdomain''))
          else if p_ServerURL p = [] then Returns (Inl (CannotBeEmpty ''ServerURL''))
          else
            Returns (Inr \<lparr>acc_Username = p_Username p,
                          acc_Password = p_Password p,
                          acc_Subdomain = p_Subdomain p,
                          acc_ServerURL = p_ServerURL p\<rparr>))"

subsection \<open>updateTxtValue\<close>

text \<open>
  The error of \<open>http.NewRequest\<close> is assigned and never read: when the request could
  not be built, \<open>req\<close> is \<open>nil\<close> and \<open>req.Header.Set\<close> dereferences it. The request
  handed to \<open>client.Do\<close> is logged whatever the answer.
\<close>

definition updateTxtValue ::
  "world \<Rightarrow> account \<Rightarrow> string \<Rightarrow> request list \<Rightarrow> error option outcome \<times> request list" where
  "updateTxtValue w acc val sent =
     (case json_Marshal [(''subdomain'', acc_Subdomain acc), (''txt'', val)] of
        Inl err \<Rightarrow> (Returns (Some (MarshallingJSON err)), sent)
      | Inr body \<Rightarrow>
          (case http_NewRequest w ''POST'' (acc_ServerURL acc @ ''/update'') body of
             Inl err \<Rightarrow> (Panics NilPointerDereference, sent)
           | Inr req \<Rightarrow>
               (let req = req\<lparr>req_Header := Header_Set ''X-Api-User'' (acc_Username acc) (req_Header req)\<rparr>;
                    req = req\<lparr>req_Header := Header_Set ''X-Api-Key'' (acc_Password acc) (req_Header req)\<rparr>;
                    req = req\<lparr>req_Header := Header_Set ''Content-Type'' ''application/json'' (req_Header req)\<rparr>
                in case client_Do w sent req of
                     Inl err \<Rightarrow> (Returns (Some (ReadingResponse err)), sent @ [req])
                   | Inr status \<Rightarrow>
                       if status \<noteq> 200 then (Returns (Some (ResponseCode status)), sent @ [req])
                       else (Returns None, sent @ [req]))))"

text \<open>The older revision sets no \<open>Content-Type\<close>.\<close>

definition updateTxtValue_old ::
  "world \<Rightarrow> account \<Rightarrow> string \<Rightarrow> request list \<Rightarrow> error option outcome \<times> request list" where
  "updateTxtValue_old w acc val sent =
     (case json_Marshal [(''subdomain'', acc_Subdomain acc), (''txt'', val)] of
        Inl err \<Rightarrow> (Returns (Some (MarshallingJSON err)), sent)
      | Inr body \<Rightarrow>
          (case http_NewRequest w ''POST'' (acc_ServerURL acc @ ''/update'') body of
             Inl err \<Rightarrow> (Panics NilPointerDereference, sent)
           | Inr req \<Rightarrow>
               (let req = req\<lparr>req_Header := Header_Set ''X-Api-User'' (acc_Username acc) (req_Header req)\<rparr>;
                    req = req\<lparr>req_Header := Header_Set ''X-Api-Key'' (acc_Password acc) (req_Header req)\<rparr>
                in case client_Do w sent req of
                     Inl err \<Rightarrow> (Returns (Some (ReadingResponse err)), sent @ [req])
                   | Inr status \<Rightarrow>
                       if status \<noteq> 200 then (Returns (Some (ResponseCode status)), sent @ [req])
                       else (Returns None, sent @ [req]))))"

subsection \<open>The four operations\<close>

text \<open>
  The \<open>context.Context\<close> argument is ignored by every operation and left out. The
  loop of \<open>AppendRecords\<close> carries \<open>appendedRecords\<close> and the log; a nil slice and
  an empty slice are both \<open>[]\<close>, and a nil error is \<open>None\<close>.
\<close>

fun AppendRecords_loop ::
  "world \<Rightarrow> Provider \<Rightarrow> string \<Rightarrow> RR list \<Rightarrow> RR list \<Rightarrow> request list
    \<Rightarrow> (RR list \<times> error option) outcome \<times> request list" where
  "AppendRecords_loop w p zone [] appendedRecords sent =
     (Returns (appendedRecords, None), sent)"
| "AppendRecords_loop w p zone (rr # recs) appendedRecords sent =
     (if rr_Type rr \<noteq> ''TXT'' then (Returns (appendedRecords, Some OnlyTXTSupported), sent)
      else
        (case selectAccount p zone (rr_Name rr) of
           Inl err \<Rightarrow> (Returns (appendedRecords, Some err), sent)
         | Inr acc \<Rightarrow>
             (case updateTxtValue w acc (rr_Data rr) sent of
                (Panics pn, sent') \<Rightarrow> (Panics pn, sent')
              | (Returns (Some err), sent') \<Rightarrow> (Returns (appendedRecords, Some err), sent')
              | (Returns None, sent') \<Rightarrow>
                  AppendRecords_loop w p zone recs
                    (appendedRecords @
                      [\<lparr>rr_Name = rr_Name rr, rr_TTL = 0, rr_Type = ''TXT'', rr_Data = rr_Data rr\<rparr>])
                    sent')))"

definition AppendRecords ::
  "world \<Rightarrow> Provider \<Rightarrow> string \<Rightarrow> RR list \<Rightarrow> request list
    \<Rightarrow> (RR list \<times> error option) outcome \<times> request list" where
  "AppendRecords w p zone recs sent = AppendRecords_loop w p zone recs [] sent"

definition DeleteRecords ::
  "world \<Rightarrow> Provider \<Rightarrow> string \<Rightarrow> RR list \<Rightarrow> request list
    \<Rightarrow> (RR list \<times> error option) outcome \<times> request list" where
  "DeleteRecords w p zone recs sent = (Returns ([], None), sent)"

definition SetRecords ::
  "world \<Rightarrow> Provider \<Rightarrow> string \<Rightarrow> RR list \<Rightarrow> request list
    \<Rightarrow> (RR list \<times> error option) outcome \<times> request list" where
  "SetRecords w p zone recs sent = AppendRecords w p zone recs sent"

definition GetRecords ::
  "world \<Rightarrow> Provider \<Rightarrow> string \<Rightarrow> request list
    \<Rightarrow> (RR list \<times> error option) outcome \<times> request list" where
  "GetRecords w p zone sent = (Returns ([], Some GetNotSupported), sent)"

text \<open>
  The older revision: the same loop over the flat-field records, with its own
  \<open>selectAccount\<close> and \<open>updateTxtValue\<close>; it has neither \<open>SetRecords\<close> nor
  \<open>GetRecords\<close>.
\<close>

fun AppendRecords_old_loop ::
  "world \<Rightarrow> Provider \<Rightarrow> string \<Rightarrow> Record_old list \<Rightarrow> Record_old list \<Rightarrow> request list
    \<Rightarrow> (Record_old list \<times> error option) outcome \<times> request list" where
  "AppendRecords_old_loop w p zone [] appendedRecords sent =
     (Returns (appendedRecords, None), sent)"
| "AppendRecords_old_loop w p zone (record # recs) appendedRecords sent =
     (if rec_Type record \<noteq> ''TXT''
      then (Returns (appendedRecords, Some OnlyTXTSupported), sent)
      else
        (case selectAccount_old p zone (rec_Name record) of
           Panics pn \<Rightarrow> (Panics pn, sent)
         | Returns (Inl err) \<Rightarrow> (Returns (appendedRecords, Some err), sent)
         | Returns (Inr acc) \<Rightarrow>
             (case updateTxtValue_old w acc (rec_Value record) sent of
                (Panics pn, sent') \<Rightarrow> (Panics pn, sent')
              | (Returns (Some err), sent') \<Rightarrow> (Returns (appendedRecords, Some err), sent')
              | (Returns None, sent') \<Rightarrow>
                  AppendRecords_old_loop w p zone recs
                    (appendedRecords @
                      [\<lparr>rec_ID = [], rec_Type = ''TXT'', rec_Name = rec_Name record,
                        rec_Value = rec_Value record, rec_TTL = 0, rec_Priority = 0\<rparr>])
                    sent')))"

definition AppendRecords_old ::
  "world \<Rightarrow> Provider \<Rightarrow> string \<Rightarrow> Record_old list \<Rightarrow> request list
    \<Rightarrow> (Record_old list \<times> error option) outcome \<times> request list" where
  "AppendRecords_old w p zone recs sent = AppendRecords_old_loop w p zone recs [] sent"

definition DeleteRecords_old ::
  "world \<Rightarrow> Provider \<Rightarrow> string \<Rightarrow> Record_old list \<Rightarrow> request list
    \<Rightarrow> (Record_old list \<times> error option) outcome \<times> request list" where
  "DeleteRecords_old w p zone recs sent = (Returns ([], None), sent)"

subsection \<open>The specification's lookup key, and a world to run in\<close>

text \<open>
  The lookup key in the specification's words: the name, a dot and the zone, less
  exactly one trailing dot, then less the prefix \<open>_acme-challenge.\<close> once at the start.
\<close>

definition spec_lookup_key :: "string \<Rightarrow> string \<Rightarrow> string" where
  "spec_lookup_key name zone =
     (let d = name @ ''.'' @ zone;
          d = (if d \<noteq> [] \<and> last d = CHR ''.'' then butlast d else d)
      in if HasPrefix d acmePrefix then drop (length acmePrefix) d else d)"

text \<open>
  A world for concrete runs: a URL that starts with a colon has no scheme and is
  rejected, every other URL is accepted; the second request of a run is answered with
  status 500, every other request with status 200.
\<close>

definition test_world :: world where
  "test_world =
     \<lparr>url_Parse = (\<lambda>url. if HasPrefix url '':'' then Some ''missing protocol scheme'' else None),
      client_Do = (\<lambda>sent req. if length sent = 1 then Inr 500 else Inr 200)\<rparr>"

section \<open>Properties\<close>

subsection \<open>Library functions\<close>

lemma rev_dropWhile_takeWhile:
  "rev (dropWhile P (rev xs)) @ rev (takeWhile P (rev xs)) = xs"
proof -
  have "rev (takeWhile P (rev xs) @ dropWhile P (rev xs)) = rev (rev xs)"
    by (simp only: takeWhile_dropWhile_id)
  then show ?thesis
    by (simp only: rev_append rev_rev_ident)
qed

text \<open>\<open>Trim\<close> with the cutset \<open>"."\<close> removes dots only, at both ends, and all of them.\<close>

lemma Trim_dot_decompose:
  "\<exists>m n. s = replicate m CHR ''.'' @ Trim s ''.'' @ replicate n CHR ''.''"
proof -
  let ?P = "\<lambda>c. c \<in> set ''.''"
  let ?t = "dropWhile ?P s"
  have head_dots: "takeWhile ?P s = replicate (length (takeWhile ?P s)) CHR ''.''"
    by (rule replicate_length_same [symmetric]) (auto dest: set_takeWhileD)
  have tail_dots: "takeWhile ?P (rev ?t) = replicate (length (takeWhile ?P (rev ?t))) CHR ''.''"
    by (rule replicate_length_same [symmetric]) (auto dest: set_takeWhileD)
  have middle: "Trim s ''.'' @ rev (takeWhile ?P (rev ?t)) = ?t"
    unfolding Trim_def by (rule rev_dropWhile_takeWhile)
  have "s = takeWhile ?P s @ ?t" by simp
  with middle have "s = takeWhile ?P s @ Trim s ''.'' @ rev (takeWhile ?P (rev ?t))" by simp
  with head_dots tail_dots show ?thesis
    by (metis rev_replicate)
qed

lemma Trim_dot_no_leading: "Trim s ''.'' \<noteq> CHR ''.'' # t"
proof
  let ?P = "\<lambda>c. c \<in> set ''.''"
  let ?t = "dropWhile ?P s"
  assume h: "Trim s ''.'' = CHR ''.'' # t"
  have "Trim s ''.'' @ rev (takeWhile ?P (rev ?t)) = ?t"
    unfolding Trim_def by (rule rev_dropWhile_takeWhile)
  with h have "?t \<noteq> [] \<and> hd ?t = CHR ''.''"
    by (metis append_Cons list.sel(1) list.distinct(1))
  then show False using hd_dropWhile [of ?P s] by simp
qed

lemma Trim_dot_no_trailing: "Trim s ''.'' \<noteq> t @ ''.''"
proof
  let ?P = "\<lambda>c. c \<in> set ''.''"
  let ?t = "dropWhile ?P s"
  assume h: "Trim s ''.'' = t @ ''.''"
  then have "dropWhile ?P (rev ?t) = CHR ''.'' # rev t"
    by (simp add: Trim_def rev_swap)
  then have "dropWhile ?P (rev ?t) \<noteq> [] \<and> hd (dropWhile ?P (rev ?t)) = CHR ''.''" by simp
  then show False using hd_dropWhile [of ?P "rev ?t"] by simp
qed

lemma TrimPrefix_once: "TrimPrefix (prefix @ s) prefix = s"
  by (simp add: TrimPrefix_def HasPrefix_def)

lemma TrimPrefix_cases: "TrimPrefix s prefix = s \<or> prefix @ TrimPrefix s prefix = s"
  by (auto simp add: TrimPrefix_def HasPrefix_def) (metis append_take_drop_id)

text \<open>The encoder leaves valid UTF-8 as it is, ASCII in particular.\<close>

lemma json_string_valid: "ValidString s \<Longrightarrow> json_string s = s"
proof (induction s rule: json_string.induct)
  case 1
  then show ?case by simp
next
  case (2 c cs)
  then show ?case
    by (auto split: option.splits if_splits)
qed

lemma json_Marshal_ok:
  "json_Marshal m = Inr (JObject (map (\<lambda>(k, v). (json_string k, json_string v)) m))"
  by (simp add: json_Marshal_def)

subsection \<open>selectAccount\<close>

lemma selectAccount_table:
  "selectAccount (p\<lparr>p_Configs := Some configs\<rparr>) zone name =
     (case configs (TrimPrefix (Trim (AbsoluteName name zone) ''.'') acmePrefix) of
        None \<Rightarrow> Inl (ConfigNotFound (TrimPrefix (Trim (AbsoluteName name zone) ''.'') acmePrefix))
      | Some config \<Rightarrow>
          Inr \<lparr>acc_Username = cfg_Username config, acc_Password = cfg_Password config,
               acc_Subdomain = cfg_Subdomain config, acc_ServerURL = cfg_ServerURL config\<rparr>)"
  by (simp add: selectAccount_def Let_def)

lemma lookup_key_example:
  "TrimPrefix (Trim (AbsoluteName ''_acme-challenge'' ''example.com'') ''.'') acmePrefix =
     ''example.com''"
  by (simp add: TrimPrefix_def HasPrefix_def Trim_def AbsoluteName_def acmePrefix_def)

text \<open>
  C1, as stated, fails: the key is not the concatenation less exactly one trailing dot.
  With the zone \<open>example.com..\<close> and the name \<open>a\<close> the specification's key is
  \<open>a.example.com.\<close>, which the table below holds; \<open>selectAccount\<close> looks up
  \<open>a.example.com\<close> and reports it missing.
\<close>

theorem selectAccount_trims_every_dot:
  "selectAccount
     \<lparr>p_Configs = Some [''a.example.com.'' \<mapsto>
        \<lparr>cfg_Username = ''u'', cfg_Password = ''p'', cfg_Subdomain = ''sd'',
         cfg_FullDomain = ''fd'', cfg_ServerURL = ''https://auth.example''\<rparr>],
      p_Username = [], p_Password = [], p_Subdomain = [], p_ServerURL = []\<rparr>
     ''example.com..'' ''a'' = Inl (ConfigNotFound ''a.example.com'')
   \<and> spec_lookup_key ''a'' ''example.com..'' = ''a.example.com.''"
  by (simp add: selectAccount_def Let_def TrimPrefix_def HasPrefix_def Trim_def
      AbsoluteName_def acmePrefix_def spec_lookup_key_def)

text \<open>
  The older revision with a table: it panics when the name, the dot and the zone, less
  one trailing dot, are shorter than the prefix, and otherwise looks up the
  specification's key.
\<close>

lemma slice_last:
  "d \<noteq> [] \<Longrightarrow>
   (if drop (length d - 1) d = ''.'' then take (length d - 1) d else d) =
   (if d \<noteq> [] \<and> last d = CHR ''.'' then butlast d else d)"
  by (cases d rule: rev_cases) auto

lemma selectAccount_old_key:
  "selectAccount_old (p\<lparr>p_Configs := Some configs\<rparr>) zone name =
     (if length (if last (name @ ''.'' @ zone) = CHR ''.'' then butlast (name @ ''.'' @ zone)
                 else name @ ''.'' @ zone) < length acmePrefix
      then Panics SliceBoundsOutOfRange
      else Returns
        (case configs (spec_lookup_key name zone) of
           None \<Rightarrow> Inl (ConfigNotFound (spec_lookup_key name zone))
         | Some config \<Rightarrow>
             Inr \<lparr>acc_Username = cfg_Username config, acc_Password = cfg_Password config,
                  acc_Subdomain = cfg_Subdomain config, acc_ServerURL = cfg_ServerURL config\<rparr>))"
proof -
  have ne: "name @ ''.'' @ zone \<noteq> []" by simp
  show ?thesis
    unfolding selectAccount_old_def spec_lookup_key_def Let_def HasPrefix_def slice_last [OF ne]
    by (simp split: option.splits)
qed

text \<open>
  C1, amended: for every zone and record name, when an account table is configured,
  \<open>selectAccount\<close> takes the absolute name (the name, a dot and the zone), strips every
  leading and every trailing dot from it, then strips the literal prefix
  \<open>_acme-challenge.\<close> at most once at the start, and looks the result up in the table:
  a miss is the error naming that key, a hit the account of the entry. What \<open>Trim\<close>
  removes is dots only and it leaves none at either end; a second occurrence of the
  prefix stays. For the zone \<open>example.com\<close> and the name \<open>_acme-challenge\<close> the key is
  \<open>example.com\<close>. The older revision looks up the key of the specification (exactly
  one trailing dot stripped) whenever the name, the dot and the zone, less that dot, are
  at least as long as the prefix.
\<close>

theorem selectAccount_lookup_key:
  assumes "length acmePrefix \<le>
             length (if last (name' @ ''.'' @ zone') = CHR ''.''
                     then butlast (name' @ ''.'' @ zone') else name' @ ''.'' @ zone')"
  shows "selectAccount (p\<lparr>p_Configs := Some configs\<rparr>) zone name =
     (case configs (TrimPrefix (Trim (AbsoluteName name zone) ''.'') acmePrefix) of
        None \<Rightarrow> Inl (ConfigNotFound (TrimPrefix (Trim (AbsoluteName name zone) ''.'') acmePrefix))
      | Some config \<Rightarrow>
          Inr \<lparr>acc_Username = cfg_Username config, acc_Password = cfg_Password config,
               acc_Subdomain = cfg_Subdomain config, acc_ServerURL = cfg_ServerURL config\<rparr>)
   \<and> AbsoluteName name zone = name @ ''.'' @ zone
   \<and> (\<exists>m n. s = replicate m CHR ''.'' @ Trim s ''.'' @ replicate n CHR ''.'')
   \<and> Trim s ''.'' \<noteq> CHR ''.'' # t
   \<and> Trim s ''.'' \<noteq> t @ ''.''
   \<and> TrimPrefix (acmePrefix @ s) acmePrefix = s
   \<and> (TrimPrefix s acmePrefix = s \<or> acmePrefix @ TrimPrefix s acmePrefix = s)
   \<and> TrimPrefix (Trim (AbsoluteName ''_acme-challenge'' ''example.com'') ''.'') acmePrefix =
       ''example.com''
   \<and> selectAccount_old (p\<lparr>p_Configs := Some configs\<rparr>) zone' name' =
       Returns
        (case configs (spec_lookup_key name' zone') of
           None \<Rightarrow> Inl (ConfigNotFound (spec_lookup_key name' zone'))
         | Some config \<Rightarrow>
             Inr \<lparr>acc_Username = cfg_Username config, acc_Password = cfg_Password config,
                  acc_Subdomain = cfg_Subdomain config, acc_ServerURL = cfg_ServerURL config\<rparr>)"
proof -
  from assms
  have "selectAccount_old (p\<lparr>p_Configs := Some configs\<rparr>) zone' name' =
       Returns
        (case configs (spec_lookup_key name' zone') of
           None \<Rightarrow> Inl (ConfigNotFound (spec_lookup_key name' zone'))
         | Some config \<Rightarrow>
             Inr \<lparr>acc_Username = cfg_Username config, acc_Password = cfg_Password config,
                  acc_Subdomain = cfg_Subdomain config, acc_ServerURL = cfg_ServerURL config\<rparr>)"
    by (simp only: selectAccount_old_key [where name = name' and zone = zone'] not_less [symmetric]
        if_False)
  with selectAccount_table [where p = p and configs = configs and zone = zone and name = name]
    Trim_dot_decompose [where s = s]
    Trim_dot_no_leading [where s = s and t = t] Trim_dot_no_trailing [where s = s and t = t]
    TrimPrefix_once [where prefix = acmePrefix and s = s]
    TrimPrefix_cases [where prefix = acmePrefix and s = s] lookup_key_example
  show ?thesis
    by (simp only: AbsoluteName_def simp_thms)
qed

text \<open>
  The table holds \<open>example.com\<close>; for the zone \<open>example.com\<close> and the name
  \<open>_acme-challenge\<close> both revisions find its account.
\<close>

theorem selectAccount_lookup_key_witness:
  "selectAccount
     \<lparr>p_Configs = Some [''example.com'' \<mapsto>
        \<lparr>cfg_Username = ''u'', cfg_Password = ''p'', cfg_Subdomain = ''sd'',
         cfg_FullDomain = ''fd'', cfg_ServerURL = ''https://auth.example''\<rparr>],
      p_Username = [], p_Password = [], p_Subdomain = [], p_ServerURL = []\<rparr>
     ''example.com'' ''_acme-challenge''
     = Inr \<lparr>acc_Username = ''u'', acc_Password = ''p'', acc_Subdomain = ''sd'',
            acc_ServerURL = ''https://auth.example''\<rparr>
   \<and> selectAccount_old
     \<lparr>p_Configs = Some [''example.com'' \<mapsto>
        \<lparr>cfg_Username = ''u'', cfg_Password = ''p'', cfg_Subdomain = ''sd'',
         cfg_FullDomain = ''fd'', cfg_ServerURL = ''https://auth.example''\<rparr>],
      p_Username = [], p_Password = [], p_Subdomain = [], p_ServerURL = []\<rparr>
     ''example.com'' ''_acme-challenge''
     = Returns (Inr \<lparr>acc_Username = ''u'', acc_Password = ''p'', acc_Subdomain = ''sd'',
            acc_ServerURL = ''https://auth.example''\<rparr>)"
proof -
  have long: "length acmePrefix \<le>
             length (if last (''_acme-challenge'' @ ''.'' @ ''example.com'') = CHR ''.''
                     then butlast (''_acme-challenge'' @ ''.'' @ ''example.com'')
                     else ''_acme-challenge'' @ ''.'' @ ''example.com'')"
    by (simp add: acmePrefix_def)
  have key: "spec_lookup_key ''_acme-challenge'' ''example.com'' = ''example.com''"
    by (simp add: spec_lookup_key_def HasPrefix_def acmePrefix_def)
  from selectAccount_lookup_key [OF long,
      where p = "\<lparr>p_Configs = None, p_Username = [], p_Password = [], p_Subdomain = [],
                   p_ServerURL = []\<rparr>"
        and configs = "[''example.com'' \<mapsto>
        \<lparr>cfg_Username = ''u'', cfg_Password = ''p'', cfg_Subdomain = ''sd'',
         cfg_FullDomain = ''fd'', cfg_ServerURL = ''https://auth.example''\<rparr>]"
        and zone = "''example.com''" and name = "''_acme-challenge''"
        and s = "[]" and t = "[]"] key lookup_key_example
  show ?thesis
    by simp
qed

text \<open>
  C5: when the account table is configured and the computed lookup key is not in it,
  \<open>selectAccount\<close> fails with the error "Config for domain ... not found" naming the
  key; and whenever the table is configured, the static fields \<open>Username\<close>,
  \<open>Password\<close>, \<open>Subdomain\<close> and \<open>ServerURL\<close> have no influence on the result, for
  any zone and name: there is no fall-back to them.
\<close>

theorem selectAccount_table_miss:
  assumes "p_Configs p = Some configs"
    and "configs (TrimPrefix (Trim (AbsoluteName name zone) ''.'') acmePrefix) = None"
  shows "selectAccount p zone name =
           Inl (ConfigNotFound (TrimPrefix (Trim (AbsoluteName name zone) ''.'') acmePrefix))
         \<and> Error (ConfigNotFound (TrimPrefix (Trim (AbsoluteName name zone) ''.'') acmePrefix)) =
             ''Config for domain '' @
               TrimPrefix (Trim (AbsoluteName name zone) ''.'') acmePrefix @ '' not found''
         \<and> selectAccount
               (p\<lparr>p_Username := u, p_Password := pw, p_Subdomain := sd, p_ServerURL := url\<rparr>)
               zone' name'
             = selectAccount p zone' name'"
  using assms by (simp add: selectAccount_def Let_def)

theorem selectAccount_table_miss_witness:
  "selectAccount
     \<lparr>p_Configs = Some [''example.org'' \<mapsto>
        \<lparr>cfg_Username = ''u1'', cfg_Password = ''p1'', cfg_Subdomain = ''sd1'',
         cfg_FullDomain = ''fd1'', cfg_ServerURL = ''https://auth.example''\<rparr>],
      p_Username = ''u'', p_Password = ''p'', p_Subdomain = ''sd'',
      p_ServerURL = ''https://auth.example''\<rparr>
     ''example.com'' ''_acme-challenge'' = Inl (ConfigNotFound ''example.com'')"
  using selectAccount_table_miss
    [of "\<lparr>p_Configs = Some [''example.org'' \<mapsto>
          \<lparr>cfg_Username = ''u1'', cfg_Password = ''p1'', cfg_Subdomain = ''sd1'',
           cfg_FullDomain = ''fd1'', cfg_ServerURL = ''https://auth.example''\<rparr>],
        p_Username = ''u'', p_Password = ''p'', p_Subdomain = ''sd'',
        p_ServerURL = ''https://auth.example''\<rparr>"
      "[''example.org'' \<mapsto>
          \<lparr>cfg_Username = ''u1'', cfg_Password = ''p1'', cfg_Subdomain = ''sd1'',
           cfg_FullDomain = ''fd1'', cfg_ServerURL = ''https://auth.example''\<rparr>]"
      "''_acme-challenge''" "''example.com''"]
  by (simp add: TrimPrefix_def HasPrefix_def Trim_def AbsoluteName_def acmePrefix_def)

text \<open>
  C6: without an account table, \<open>selectAccount\<close> checks the fields in the order
  \<open>Username\<close>, \<open>Password\<close>, \<open>Subdomain\<close>, \<open>ServerURL\<close>; the first empty one decides,
  with the error "<field> cannot be empty" naming it; when none is empty the result is
  the account made of exactly these four fields. The older revision returns the same.
\<close>

theorem selectAccount_flat_validation:
  "selectAccount (p\<lparr>p_Configs := None\<rparr>) zone name =
     (case find (\<lambda>(field, v). v = [])
             [(''Username'', p_Username p), (''Password'', p_Password p),
              (''Subdomain'', p_Subdomain p), (''ServerURL'', p_ServerURL p)] of
        Some (field, v) \<Rightarrow> Inl (CannotBeEmpty field)
      | None \<Rightarrow>
          Inr \<lparr>acc_Username = p_Username p, acc_Password = p_Password p,
               acc_Subdomain = p_Subdomain p, acc_ServerURL = p_ServerURL p\<rparr>)
   \<and> Error (CannotBeEmpty field') = field' @ '' cannot be empty''
   \<and> selectAccount_old (p\<lparr>p_Configs := None\<rparr>) zone name =
       Returns (selectAccount (p\<lparr>p_Configs := None\<rparr>) zone name)"
  by (simp add: selectAccount_def selectAccount_old_def)

subsection \<open>updateTxtValue\<close>

text \<open>
  C2: \<open>selectAccount\<close> and \<open>updateTxtValue\<close> are to return a result or an error and
  never to fail abnormally, a failed request construction coming back as an error. The
  code does otherwise:
  \<^item> the flat configuration with the server URL \<open>:\<close> passes \<open>selectAccount\<close>, the URL
    \<open>:/update\<close> is rejected, and \<open>updateTxtValue\<close> panics on the nil request, and
    \<open>AppendRecords\<close> with it, before any request goes out;
  \<^item> so it is in every world, for every account whose URL that world rejects;
  \<^item> \<open>selectAccount\<close> of the older revision panics for the zone \<open>b\<close> and the name
    \<open>a\<close>, whatever the table holds.
\<close>

theorem updateTxtValue_panics_on_rejected_url:
  "selectAccount
     \<lparr>p_Configs = None, p_Username = ''u'', p_Password = ''p'', p_Subdomain = ''sd'',
      p_ServerURL = '':''\<rparr> ''example.com'' ''_acme-challenge''
     = Inr \<lparr>acc_Username = ''u'', acc_Password = ''p'', acc_Subdomain = ''sd'',
            acc_ServerURL = '':''\<rparr>
   \<and> updateTxtValue test_world
       \<lparr>acc_Username = ''u'', acc_Password = ''p'', acc_Subdomain = ''sd'', acc_ServerURL = '':''\<rparr>
       ''abc123'' [] = (Panics NilPointerDereference, [])
   \<and> AppendRecords test_world
       \<lparr>p_Configs = None, p_Username = ''u'', p_Password = ''p'', p_Subdomain = ''sd'',
        p_ServerURL = '':''\<rparr> ''example.com''
       [\<lparr>rr_Name = ''_acme-challenge'', rr_TTL = 0, rr_Type = ''TXT'', rr_Data = ''abc123''\<rparr>] []
     = (Panics NilPointerDereference, [])
   \<and> updateTxtValue (w\<lparr>url_Parse := (url_Parse w)(acc_ServerURL acc @ ''/update'' \<mapsto> msg)\<rparr>)
       acc val sent = (Panics NilPointerDereference, sent)
   \<and> updateTxtValue_old (w\<lparr>url_Parse := (url_Parse w)(acc_ServerURL acc @ ''/update'' \<mapsto> msg)\<rparr>)
       acc val sent = (Panics NilPointerDereference, sent)
   \<and> selectAccount_old (p\<lparr>p_Configs := Some configs\<rparr>) ''b'' ''a'' = Panics SliceBoundsOutOfRange"
  by (simp add: updateTxtValue_def updateTxtValue_old_def json_Marshal_def http_NewRequest_def
      test_world_def HasPrefix_def selectAccount_def selectAccount_old_def acmePrefix_def
      AppendRecords_def Let_def)

text \<open>
  C8, as stated, fails twice. On the older revision: for the credentials \<open>u\<close>,
  \<open>p\<close>, \<open>sd\<close>, \<open>https://auth.example\<close> and the value \<open>abc123\<close> its request
  carries the headers \<open>X-Api-User\<close> and \<open>X-Api-Key\<close> and no \<open>Content-Type\<close>. On
  both revisions: for the value that is the single byte \<open>FF\<close>, which is no UTF-8, the
  \<open>txt\<close> member of the body is not that value but U+FFFD.
\<close>

theorem updateTxtValue_request_differs:
  "updateTxtValue_old test_world
     \<lparr>acc_Username = ''u'', acc_Password = ''p'', acc_Subdomain = ''sd'',
      acc_ServerURL = ''https://auth.example''\<rparr> ''abc123'' []
   = (Returns None,
      [\<lparr>req_Method = ''POST'', req_URL = ''https://auth.example/update'',
        req_Header = [(''X-Api-User'', ''u''), (''X-Api-Key'', ''p'')],
        req_Body = JObject [(''subdomain'', ''sd''), (''txt'', ''abc123'')]\<rparr>])
   \<and> updateTxtValue test_world
     \<lparr>acc_Username = ''u'', acc_Password = ''p'', acc_Subdomain = ''sd'',
      acc_ServerURL = ''https://auth.example''\<rparr> [CHR 0xFF] []
   = (Returns None,
      [\<lparr>req_Method = ''POST'', req_URL = ''https://auth.example/update'',
        req_Header = [(''X-Api-User'', ''u''), (''X-Api-Key'', ''p''),
                      (''Content-Type'', ''application/json'')],
        req_Body = JObject [(''subdomain'', ''sd''),
                            (''txt'', [CHR 0xEF, CHR 0xBF, CHR 0xBD])]\<rparr>])"
  by (simp add: updateTxtValue_def updateTxtValue_old_def json_Marshal_def http_NewRequest_def
      test_world_def HasPrefix_def DecodeRuneInString_def first_byte_def Let_def)

text \<open>
  C8, amended: when the URL of the account is one \<open>http.NewRequest\<close> accepts,
  \<open>updateTxtValue\<close> hands exactly one request to the HTTP client (one call of
  \<open>client.Do\<close>): a \<open>POST\<close> to the server URL followed by \<open>/update\<close>, with the
  headers \<open>X-Api-User\<close> (the user name) and \<open>X-Api-Key\<close> (the password), and in the
  resource-record revision also \<open>Content-Type: application/json\<close>; the older revision
  sets no \<open>Content-Type\<close>. The body is the JSON object of \<open>subdomain\<close> and \<open>txt\<close>, each
  as the encoder writes it: the string itself when it is valid UTF-8, and with U+FFFD
  for every byte that is not part of a well-formed encoding otherwise. In both
  revisions it returns no error exactly when the answer is the status 200; any other
  status is the error carrying the status code, whose message prints it; a transport
  failure is the error wrapping it.
\<close>

theorem updateTxtValue_request:
  assumes "url_Parse w (acc_ServerURL acc @ ''/update'') = None"
  shows "updateTxtValue w acc val sent =
     (case client_Do w sent
             \<lparr>req_Method = ''POST'', req_URL = acc_ServerURL acc @ ''/update'',
              req_Header = [(''X-Api-User'', acc_Username acc), (''X-Api-Key'', acc_Password acc),
                            (''Content-Type'', ''application/json'')],
              req_Body = JObject [(''subdomain'', json_string (acc_Subdomain acc)),
                                  (''txt'', json_string val)]\<rparr> of
        Inl err \<Rightarrow> Returns (Some (ReadingResponse err))
      | Inr status \<Rightarrow> if status = 200 then Returns None else Returns (Some (ResponseCode status)),
      sent @
        [\<lparr>req_Method = ''POST'', req_URL = acc_ServerURL acc @ ''/update'',
          req_Header = [(''X-Api-User'', acc_Username acc), (''X-Api-Key'', acc_Password acc),
                        (''Content-Type'', ''application/json'')],
          req_Body = JObject [(''subdomain'', json_string (acc_Subdomain acc)),
                              (''txt'', json_string val)]\<rparr>])
   \<and> (fst (updateTxtValue w acc val sent) = Returns None) =
       (client_Do w sent
             \<lparr>req_Method = ''POST'', req_URL = acc_ServerURL acc @ ''/update'',
              req_Header = [(''X-Api-User'', acc_Username acc), (''X-Api-Key'', acc_Password acc),
                            (''Content-Type'', ''application/json'')],
              req_Body = JObject [(''subdomain'', json_string (acc_Subdomain acc)),
                                  (''txt'', json_string val)]\<rparr> = Inr 200)
   \<and> updateTxtValue_old w acc val sent =
     (case client_Do w sent
             \<lparr>req_Method = ''POST'', req_URL = acc_ServerURL acc @ ''/update'',
              req_Header = [(''X-Api-User'', acc_Username acc), (''X-Api-Key'', acc_Password acc)],
              req_Body = JObject [(''subdomain'', json_string (acc_Subdomain acc)),
                                  (''txt'', json_string val)]\<rparr> of
        Inl err \<Rightarrow> Returns (Some (ReadingResponse err))
      | Inr status \<Rightarrow> if status = 200 then Returns None else Returns (Some (ResponseCode status)),
      sent @
        [\<lparr>req_Method = ''POST'', req_URL = acc_ServerURL acc @ ''/update'',
          req_Header = [(''X-Api-User'', acc_Username acc), (''X-Api-Key'', acc_Password acc)],
          req_Body = JObject [(''subdomain'', json_string (acc_Subdomain acc)),
                              (''txt'', json_string val)]\<rparr>])
   \<and> (fst (updateTxtValue_old w acc val sent) = Returns None) =
       (client_Do w sent
             \<lparr>req_Method = ''POST'', req_URL = acc_ServerURL acc @ ''/update'',
              req_Header = [(''X-Api-User'', acc_Username acc), (''X-Api-Key'', acc_Password acc)],
              req_Body = JObject [(''subdomain'', json_string (acc_Subdomain acc)),
                                  (''txt'', json_string val)]\<rparr> = Inr 200)
   \<and> (ValidString s \<longrightarrow> json_string s = s)
   \<and> Error (ResponseCode status') =
       ''Updating ACME-DNS record resulted in response code '' @ Itoa status'
   \<and> Error (ReadingResponse err') = ''Error while reading response: '' @ Error err'"
proof -
  from assms have new: "updateTxtValue w acc val sent =
     (case client_Do w sent
             \<lparr>req_Method = ''POST'', req_URL = acc_ServerURL acc @ ''/update'',
              req_Header = [(''X-Api-User'', acc_Username acc), (''X-Api-Key'', acc_Password acc),
                            (''Content-Type'', ''application/json'')],
              req_Body = JObject [(''subdomain'', json_string (acc_Subdomain acc)),
                                  (''txt'', json_string val)]\<rparr> of
        Inl err \<Rightarrow> Returns (Some (ReadingResponse err))
      | Inr status \<Rightarrow> if status = 200 then Returns None else Returns (Some (ResponseCode status)),
      sent @
        [\<lparr>req_Method = ''POST'', req_URL = acc_ServerURL acc @ ''/update'',
          req_Header = [(''X-Api-User'', acc_Username acc), (''X-Api-Key'', acc_Password acc),
                        (''Content-Type'', ''application/json'')],
          req_Body = JObject [(''subdomain'', json_string (acc_Subdomain acc)),
                              (''txt'', json_string val)]\<rparr>])"
    by (auto simp add: updateTxtValue_def json_Marshal_def http_NewRequest_def Let_def
        split: sum.splits)
  from assms have old: "updateTxtValue_old w acc val sent =
     (case client_Do w sent
             \<lparr>req_Method = ''POST'', req_URL = acc_ServerURL acc @ ''/update'',
              req_Header = [(''X-Api-User'', acc_Username acc), (''X-Api-Key'', acc_Password acc)],
              req_Body = JObject [(''subdomain'', json_string (acc_Subdomain acc)),
                                  (''txt'', json_string val)]\<rparr> of
        Inl err \<Rightarrow> Returns (Some (ReadingResponse err))
      | Inr status \<Rightarrow> if status = 200 then Returns None else Returns (Some (ResponseCode status)),
      sent @
        [\<lparr>req_Method = ''POST'', req_URL = acc_ServerURL acc @ ''/update'',
          req_Header = [(''X-Api-User'', acc_Username acc), (''X-Api-Key'', acc_Password acc)],
          req_Body = JObject [(''subdomain'', json_string (acc_Subdomain acc)),
                              (''txt'', json_string val)]\<rparr>])"
    by (auto simp add: updateTxtValue_old_def json_Marshal_def http_NewRequest_def Let_def
        split: sum.splits)
  show ?thesis
    unfolding new old by (auto split: sum.splits simp add: json_string_valid)
qed

text \<open>
  The credentials \<open>u\<close>, \<open>p\<close>, \<open>sd\<close>, \<open>https://auth.example\<close> and the value
  \<open>abc123\<close>, which is valid UTF-8 and goes into the body as it is.
\<close>

theorem updateTxtValue_request_witness:
  "ValidString ''abc123''
   \<and> updateTxtValue test_world
     \<lparr>acc_Username = ''u'', acc_Password = ''p'', acc_Subdomain = ''sd'',
      acc_ServerURL = ''https://auth.example''\<rparr> ''abc123'' []
   = (Returns None,
      [\<lparr>req_Method = ''POST'', req_URL = ''https://auth.example/update'',
        req_Header = [(''X-Api-User'', ''u''), (''X-Api-Key'', ''p''),
                      (''Content-Type'', ''application/json'')],
        req_Body = JObject [(''subdomain'', ''sd''), (''txt'', ''abc123'')]\<rparr>])
   \<and> Error (ResponseCode 500) = ''Updating ACME-DNS record resulted in response code 500''"
proof -
  have parses: "url_Parse test_world
      (acc_ServerURL \<lparr>acc_Username = ''u'', acc_Password = ''p'', acc_Subdomain = ''sd'',
      acc_ServerURL = ''https://auth.example''\<rparr> @ ''/update'') = None"
    by (simp add: test_world_def HasPrefix_def)
  have valid: "ValidString ''abc123''"
    by simp
  have answer: "client_Do test_world []
      \<lparr>req_Method = ''POST'', req_URL = ''https://auth.example/update'',
        req_Header = [(''X-Api-User'', ''u''), (''X-Api-Key'', ''p''),
                      (''Content-Type'', ''application/json'')],
        req_Body = JObject [(''subdomain'', ''sd''), (''txt'', ''abc123'')]\<rparr> = Inr 200"
    by (simp add: test_world_def)
  have decimal: "Itoa 500 = ''500''"
    by code_simp
  from updateTxtValue_request [OF parses, of "''abc123''" "[]" "''abc123''" 500]
    valid answer decimal
  show ?thesis
    by simp
qed

lemma updateTxtValue_sent:
  "updateTxtValue w acc val sent = (Returns r, sent') \<Longrightarrow> \<exists>req. sent' = sent @ [req]"
  by (auto simp add: updateTxtValue_def json_Marshal_def Let_def
      split: sum.splits if_splits)

subsection \<open>AppendRecords\<close>

text \<open>
  Once a prefix of the batch has gone through without error, the loop continues on the
  rest from the records and the log it has reached.
\<close>

lemma AppendRecords_loop_append:
  "AppendRecords_loop w p zone xs acc sent = (Returns (acc', None), sent')
   \<Longrightarrow> AppendRecords_loop w p zone (xs @ ys) acc sent =
       AppendRecords_loop w p zone ys acc' sent'"
proof (induction xs arbitrary: acc sent)
  case Nil
  then show ?case by simp
next
  case (Cons rr xs)
  then show ?case
    by (auto split: if_splits sum.splits prod.splits outcome.splits option.splits)
qed

text \<open>A batch that goes through adds one normalized record and one request per record.\<close>

lemma AppendRecords_loop_ok:
  "AppendRecords_loop w p zone xs acc sent = (Returns (acc', None), sent')
   \<Longrightarrow> acc' = acc @ map (\<lambda>rr. \<lparr>rr_Name = rr_Name rr, rr_TTL = 0, rr_Type = ''TXT'',
                                  rr_Data = rr_Data rr\<rparr>) xs
       \<and> length sent' = length sent + length xs"
proof (induction xs arbitrary: acc sent)
  case Nil
  then show ?case by simp
next
  case (Cons rr xs)
  then show ?case
    by (fastforce split: if_splits sum.splits prod.splits outcome.splits option.splits
        dest: updateTxtValue_sent)
qed

text \<open>
  The accumulator only collects: the loop started with the records \<open>acc\<close> returns
  \<open>acc\<close> followed by what the loop started with none returns. So \<open>AppendRecords\<close> on a
  batch is its first record's type test, \<open>selectAccount\<close> and \<open>updateTxtValue\<close>,
  followed by \<open>AppendRecords\<close> on the rest; in both revisions.
\<close>

lemma AppendRecords_loop_acc:
  "AppendRecords_loop w p zone recs acc sent =
     (case AppendRecords_loop w p zone recs [] sent of
        (Returns (applied, e), sent') \<Rightarrow> (Returns (acc @ applied, e), sent')
      | (Panics pn, sent') \<Rightarrow> (Panics pn, sent'))"
proof (induction recs arbitrary: acc sent)
  case Nil
  then show ?case by simp
next
  case (Cons rr recs)
  let ?n = "\<lparr>rr_Name = rr_Name rr, rr_TTL = 0, rr_Type = ''TXT'', rr_Data = rr_Data rr\<rparr>"
  have step: "AppendRecords_loop w p zone recs (acc @ [?n]) s =
     (case AppendRecords_loop w p zone recs [?n] s of
        (Returns (applied, e), sent') \<Rightarrow> (Returns (acc @ applied, e), sent')
      | (Panics pn, sent') \<Rightarrow> (Panics pn, sent'))" for s
    by (subst Cons.IH [of "acc @ [?n]" s], subst Cons.IH [of "[?n]" s])
       (simp split: prod.splits outcome.splits)
  show ?case
    by (simp add: step split: sum.splits prod.splits outcome.splits option.splits)
qed

lemma AppendRecords_Cons:
  "AppendRecords w p zone (rr # recs) sent =
     (if rr_Type rr \<noteq> ''TXT'' then (Returns ([], Some OnlyTXTSupported), sent)
      else
        (case selectAccount p zone (rr_Name rr) of
           Inl err \<Rightarrow> (Returns ([], Some err), sent)
         | Inr acc \<Rightarrow>
             (case updateTxtValue w acc (rr_Data rr) sent of
                (Panics pn, sent') \<Rightarrow> (Panics pn, sent')
              | (Returns (Some err), sent') \<Rightarrow> (Returns ([], Some err), sent')
              | (Returns None, sent') \<Rightarrow>
                  (case AppendRecords w p zone recs sent' of
                     (Panics pn, sent'') \<Rightarrow> (Panics pn, sent'')
                   | (Returns (applied, e), sent'') \<Rightarrow>
                       (Returns (\<lparr>rr_Name = rr_Name rr, rr_TTL = 0, rr_Type = ''TXT'',
                                  rr_Data = rr_Data rr\<rparr> # applied, e), sent'')))))"
  unfolding AppendRecords_def
  by (simp add: AppendRecords_loop_acc [of w p zone recs "[_]"]
      split: sum.splits prod.splits outcome.splits option.splits)

lemma AppendRecords_old_loop_acc:
  "AppendRecords_old_loop w p zone recs acc sent =
     (case AppendRecords_old_loop w p zone recs [] sent of
        (Returns (applied, e), sent') \<Rightarrow> (Returns (acc @ applied, e), sent')
      | (Panics pn, sent') \<Rightarrow> (Panics pn, sent'))"
proof (induction recs arbitrary: acc sent)
  case Nil
  then show ?case by simp
next
  case (Cons r recs)
  let ?n = "\<lparr>rec_ID = [], rec_Type = ''TXT'', rec_Name = rec_Name r,
             rec_Value = rec_Value r, rec_TTL = 0, rec_Priority = 0\<rparr>"
  have step: "AppendRecords_old_loop w p zone recs (acc @ [?n]) s =
     (case AppendRecords_old_loop w p zone recs [?n] s of
        (Returns (applied, e), sent') \<Rightarrow> (Returns (acc @ applied, e), sent')
      | (Panics pn, sent') \<Rightarrow> (Panics pn, sent'))" for s
    by (subst Cons.IH [of "acc @ [?n]" s], subst Cons.IH [of "[?n]" s])
       (simp split: prod.splits outcome.splits)
  show ?case
    by (simp add: step split: sum.splits prod.splits outcome.splits option.splits)
qed

lemma AppendRecords_old_Cons:
  "AppendRecords_old w p zone (r # recs) sent =
     (if rec_Type r \<noteq> ''TXT'' then (Returns ([], Some OnlyTXTSupported), sent)
      else
        (case selectAccount_old p zone (rec_Name r) of
           Panics pn \<Rightarrow> (Panics pn, sent)
         | Returns (Inl err) \<Rightarrow> (Returns ([], Some err), sent)
         | Returns (Inr acc) \<Rightarrow>
             (case updateTxtValue_old w acc (rec_Value r) sent of
                (Panics pn, sent') \<Rightarrow> (Panics pn, sent')
              | (Returns (Some err), sent') \<Rightarrow> (Returns ([], Some err), sent')
              | (Returns None, sent') \<Rightarrow>
                  (case AppendRecords_old w p zone recs sent' of
                     (Panics pn, sent'') \<Rightarrow> (Panics pn, sent'')
                   | (Returns (applied, e), sent'') \<Rightarrow>
                       (Returns (\<lparr>rec_ID = [], rec_Type = ''TXT'', rec_Name = rec_Name r,
                                  rec_Value = rec_Value r, rec_TTL = 0, rec_Priority = 0\<rparr>
                                 # applied, e), sent'')))))"
  unfolding AppendRecords_old_def
  by (simp add: AppendRecords_old_loop_acc [of w p zone recs "[_]"]
      split: sum.splits prod.splits outcome.splits option.splits)

text \<open>
  C3: \<open>AppendRecords\<close> is to work through the batch in order and to stop at the first
  record that fails (its type is not \<open>TXT\<close>, \<open>selectAccount\<close> fails for its name, or
  \<open>updateTxtValue\<close> fails for its value), returning the normalized records (type
  \<open>TXT\<close>, name, value) of the records before it together with that record's error,
  and never trying the records after it.

  The code does so whenever the failure is an error. After the records \<open>pre\<close> have
  gone through, from the log \<open>sent\<close> to the log \<open>sent1\<close> with one request each, and
  for every record \<open>r\<close> and every rest \<open>post\<close>:
  \<^item> a type other than \<open>TXT\<close> ends the batch with the records of \<open>pre\<close>, normalized,
    the error for it, and the log \<open>sent1\<close>;
  \<^item> an error of \<open>selectAccount\<close> for the name of \<open>r\<close> ends it with these records,
    that error, and the log \<open>sent1\<close>;
  \<^item> an error of \<open>updateTxtValue\<close> for the account and the value of \<open>r\<close> ends it with
    these records, that error, and \<open>sent1\<close> with the one request for \<open>r\<close>;
  \<^item> when \<open>updateTxtValue\<close> succeeds, \<open>r\<close> joins the records applied.

  The code does otherwise when the failure is a panic: when \<open>updateTxtValue\<close> panics
  for \<open>r\<close> the batch panics, and neither the records of \<open>pre\<close> nor an error come back.
  So it is for the table and the three records below: the first record is applied, the
  URL of the second record's account is rejected, and the batch panics after one
  request. In the older revision the second record's name \<open>x\<close> makes \<open>selectAccount\<close>
  panic, with the same end.

  In both revisions a batch is decided by its first record and the batch of the rest,
  as the two equations say; result and log never depend on a record after the one that
  fails.
\<close>

theorem AppendRecords_first_failure:
  assumes ok: "AppendRecords w p zone pre sent = (Returns (applied, None), sent1)"
  shows "applied = map (\<lambda>rr. \<lparr>rr_Name = rr_Name rr, rr_TTL = 0, rr_Type = ''TXT'',
                               rr_Data = rr_Data rr\<rparr>) pre
   \<and> length sent1 = length sent + length pre
   \<and> (rr_Type r \<noteq> ''TXT'' \<longrightarrow>
        AppendRecords w p zone (pre @ r # post) sent =
          (Returns (applied, Some OnlyTXTSupported), sent1))
   \<and> (rr_Type r = ''TXT'' \<longrightarrow> selectAccount p zone (rr_Name r) = Inl err \<longrightarrow>
        AppendRecords w p zone (pre @ r # post) sent = (Returns (applied, Some err), sent1))
   \<and> (rr_Type r = ''TXT'' \<longrightarrow> selectAccount p zone (rr_Name r) = Inr acc \<longrightarrow>
        updateTxtValue w acc (rr_Data r) sent1 = (Returns (Some err), sent_r) \<longrightarrow>
        AppendRecords w p zone (pre @ r # post) sent = (Returns (applied, Some err), sent_r)
        \<and> (\<exists>req. sent_r = sent1 @ [req]))
   \<and> (rr_Type r = ''TXT'' \<longrightarrow> selectAccount p zone (rr_Name r) = Inr acc \<longrightarrow>
        updateTxtValue w acc (rr_Data r) sent1 = (Returns None, sent_r) \<longrightarrow>
        AppendRecords w p zone (pre @ [r]) sent =
          (Returns (applied @ [\<lparr>rr_Name = rr_Name r, rr_TTL = 0, rr_Type = ''TXT'',
                                 rr_Data = rr_Data r\<rparr>], None), sent_r))
   \<and> (rr_Type r = ''TXT'' \<longrightarrow> selectAccount p zone (rr_Name r) = Inr acc \<longrightarrow>
        updateTxtValue w acc (rr_Data r) sent1 = (Panics pn, sent_r) \<longrightarrow>
        AppendRecords w p zone (pre @ r # post) sent = (Panics pn, sent_r))
   \<and> AppendRecords test_world
       \<lparr>p_Configs = Some [''a.example.com'' \<mapsto>
            \<lparr>cfg_Username = ''ua'', cfg_Password = ''pa'', cfg_Subdomain = ''sda'',
             cfg_FullDomain = ''fda'', cfg_ServerURL = ''https://auth.example''\<rparr>,
          ''b.example.com'' \<mapsto>
            \<lparr>cfg_Username = ''ub'', cfg_Password = ''pb'', cfg_Subdomain = ''sdb'',
             cfg_FullDomain = ''fdb'', cfg_ServerURL = '':''\<rparr>],
        p_Username = [], p_Password = [], p_Subdomain = [], p_ServerURL = []\<rparr>
       ''example.com''
       [\<lparr>rr_Name = ''_acme-challenge.a'', rr_TTL = 120, rr_Type = ''TXT'', rr_Data = ''v1''\<rparr>,
        \<lparr>rr_Name = ''_acme-challenge.b'', rr_TTL = 120, rr_Type = ''TXT'', rr_Data = ''v2''\<rparr>,
        \<lparr>rr_Name = ''_acme-challenge.a'', rr_TTL = 120, rr_Type = ''TXT'', rr_Data = ''v3''\<rparr>]
       []
     = (Panics NilPointerDereference,
        [\<lparr>req_Method = ''POST'', req_URL = ''https://auth.example/update'',
          req_Header = [(''X-Api-User'', ''ua''), (''X-Api-Key'', ''pa''),
                        (''Content-Type'', ''application/json'')],
          req_Body = JObject [(''subdomain'', ''sda''), (''txt'', ''v1'')]\<rparr>])
   \<and> AppendRecords_old test_world
       \<lparr>p_Configs = Some [''a.example.com'' \<mapsto>
            \<lparr>cfg_Username = ''ua'', cfg_Password = ''pa'', cfg_Subdomain = ''sda'',
             cfg_FullDomain = ''fda'', cfg_ServerURL = ''https://auth.example''\<rparr>],
        p_Username = [], p_Password = [], p_Subdomain = [], p_ServerURL = []\<rparr>
       ''example.com''
       [\<lparr>rec_ID = ''1'', rec_Type = ''TXT'', rec_Name = ''_acme-challenge.a'',
         rec_Value = ''v1'', rec_TTL = 120, rec_Priority = 0\<rparr>,
        \<lparr>rec_ID = ''2'', rec_Type = ''TXT'', rec_Name = ''x'',
         rec_Value = ''v2'', rec_TTL = 120, rec_Priority = 0\<rparr>,
        \<lparr>rec_ID = ''3'', rec_Type = ''TXT'', rec_Name = ''_acme-challenge.a'',
         rec_Value = ''v3'', rec_TTL = 120, rec_Priority = 0\<rparr>]
       []
     = (Panics SliceBoundsOutOfRange,
        [\<lparr>req_Method = ''POST'', req_URL = ''https://auth.example/update'',
          req_Header = [(''X-Api-User'', ''ua''), (''X-Api-Key'', ''pa'')],
          req_Body = JObject [(''subdomain'', ''sda''), (''txt'', ''v1'')]\<rparr>])
   \<and> AppendRecords w' p' zone' [] sent' = (Returns ([], None), sent')
   \<and> AppendRecords w' p' zone' (rr # recs) sent' =
     (if rr_Type rr \<noteq> ''TXT'' then (Returns ([], Some OnlyTXTSupported), sent')
      else
        (case selectAccount p' zone' (rr_Name rr) of
           Inl err \<Rightarrow> (Returns ([], Some err), sent')
         | Inr acc \<Rightarrow>
             (case updateTxtValue w' acc (rr_Data rr) sent' of
                (Panics pn, sent'') \<Rightarrow> (Panics pn, sent'')
              | (Returns (Some err), sent'') \<Rightarrow> (Returns ([], Some err), sent'')
              | (Returns None, sent'') \<Rightarrow>
                  (case AppendRecords w' p' zone' recs sent'' of
                     (Panics pn, sent3) \<Rightarrow> (Panics pn, sent3)
                   | (Returns (applied, e), sent3) \<Rightarrow>
                       (Returns (\<lparr>rr_Name = rr_Name rr, rr_TTL = 0, rr_Type = ''TXT'',
                                  rr_Data = rr_Data rr\<rparr> # applied, e), sent3)))))
   \<and> AppendRecords_old w' p' zone' [] sent' = (Returns ([], None), sent')
   \<and> AppendRecords_old w' p' zone' (ro # recs_old) sent' =
     (if rec_Type ro \<noteq> ''TXT'' then (Returns ([], Some OnlyTXTSupported), sent')
      else
        (case selectAccount_old p' zone' (rec_Name ro) of
           Panics pn \<Rightarrow> (Panics pn, sent')
         | Returns (Inl err) \<Rightarrow> (Returns ([], Some err), sent')
         | Returns (Inr acc) \<Rightarrow>
             (case updateTxtValue_old w' acc (rec_Value ro) sent' of
                (Panics pn, sent'') \<Rightarrow> (Panics pn, sent'')
              | (Returns (Some err), sent'') \<Rightarrow> (Returns ([], Some err), sent'')
              | (Returns None, sent'') \<Rightarrow>
                  (case AppendRecords_old w' p' zone' recs_old sent'' of
                     (Panics pn, sent3) \<Rightarrow> (Panics pn, sent3)
                   | (Returns (applied, e), sent3) \<Rightarrow>
                       (Returns (\<lparr>rec_ID = [], rec_Type = ''TXT'', rec_Name = rec_Name ro,
                                  rec_Value = rec_Value ro, rec_TTL = 0, rec_Priority = 0\<rparr>
                                 # applied, e), sent3)))))"
proof -
  from ok have l: "AppendRecords_loop w p zone pre [] sent = (Returns (applied, None), sent1)"
    by (simp add: AppendRecords_def)
  from AppendRecords_loop_ok [OF l]
  have ap: "applied = map (\<lambda>rr. \<lparr>rr_Name = rr_Name rr, rr_TTL = 0, rr_Type = ''TXT'',
                                 rr_Data = rr_Data rr\<rparr>) pre"
    and len: "length sent1 = length sent + length pre" by simp_all
  have rest: "AppendRecords w p zone (pre @ recs) sent =
      AppendRecords_loop w p zone recs applied sent1" for recs
    using AppendRecords_loop_append [OF l, of recs] by (simp add: AppendRecords_def)
  have stops: "(rr_Type r \<noteq> ''TXT'' \<longrightarrow>
        AppendRecords w p zone (pre @ r # post) sent =
          (Returns (applied, Some OnlyTXTSupported), sent1))
   \<and> (rr_Type r = ''TXT'' \<longrightarrow> selectAccount p zone (rr_Name r) = Inl err \<longrightarrow>
        AppendRecords w p zone (pre @ r # post) sent = (Returns (applied, Some err), sent1))
   \<and> (rr_Type r = ''TXT'' \<longrightarrow> selectAccount p zone (rr_Name r) = Inr acc \<longrightarrow>
        updateTxtValue w acc (rr_Data r) sent1 = (Returns (Some err), sent_r) \<longrightarrow>
        AppendRecords w p zone (pre @ r # post) sent = (Returns (applied, Some err), sent_r)
        \<and> (\<exists>req. sent_r = sent1 @ [req]))
   \<and> (rr_Type r = ''TXT'' \<longrightarrow> selectAccount p zone (rr_Name r) = Inr acc \<longrightarrow>
        updateTxtValue w acc (rr_Data r) sent1 = (Returns None, sent_r) \<longrightarrow>
        AppendRecords w p zone (pre @ [r]) sent =
          (Returns (applied @ [\<lparr>rr_Name = rr_Name r, rr_TTL = 0, rr_Type = ''TXT'',
                                 rr_Data = rr_Data r\<rparr>], None), sent_r))
   \<and> (rr_Type r = ''TXT'' \<longrightarrow> selectAccount p zone (rr_Name r) = Inr acc \<longrightarrow>
        updateTxtValue w acc (rr_Data r) sent1 = (Panics pn, sent_r) \<longrightarrow>
        AppendRecords w p zone (pre @ r # post) sent = (Panics pn, sent_r))"
    by (auto simp add: rest dest: updateTxtValue_sent)
  have panics: "AppendRecords test_world
       \<lparr>p_Configs = Some [''a.example.com'' \<mapsto>
            \<lparr>cfg_Username = ''ua'', cfg_Password = ''pa'', cfg_Subdomain = ''sda'',
             cfg_FullDomain = ''fda'', cfg_ServerURL = ''https://auth.example''\<rparr>,
          ''b.example.com'' \<mapsto>
            \<lparr>cfg_Username = ''ub'', cfg_Password = ''pb'', cfg_Subdomain = ''sdb'',
             cfg_FullDomain = ''fdb'', cfg_ServerURL = '':''\<rparr>],
        p_Username = [], p_Password = [], p_Subdomain = [], p_ServerURL = []\<rparr>
       ''example.com''
       [\<lparr>rr_Name = ''_acme-challenge.a'', rr_TTL = 120, rr_Type = ''TXT'', rr_Data = ''v1''\<rparr>,
        \<lparr>rr_Name = ''_acme-challenge.b'', rr_TTL = 120, rr_Type = ''TXT'', rr_Data = ''v2''\<rparr>,
        \<lparr>rr_Name = ''_acme-challenge.a'', rr_TTL = 120, rr_Type = ''TXT'', rr_Data = ''v3''\<rparr>]
       []
     = (Panics NilPointerDereference,
        [\<lparr>req_Method = ''POST'', req_URL = ''https://auth.example/update'',
          req_Header = [(''X-Api-User'', ''ua''), (''X-Api-Key'', ''pa''),
                        (''Content-Type'', ''application/json'')],
          req_Body = JObject [(''subdomain'', ''sda''), (''txt'', ''v1'')]\<rparr>])"
    by (simp add: AppendRecords_def selectAccount_def updateTxtValue_def json_Marshal_def
        http_NewRequest_def test_world_def HasPrefix_def TrimPrefix_def Trim_def
        AbsoluteName_def acmePrefix_def Let_def)
  have panics_old: "AppendRecords_old test_world
       \<lparr>p_Configs = Some [''a.example.com'' \<mapsto>
            \<lparr>cfg_Username = ''ua'', cfg_Password = ''pa'', cfg_Subdomain = ''sda'',
             cfg_FullDomain = ''fda'', cfg_ServerURL = ''https://auth.example''\<rparr>],
        p_Username = [], p_Password = [], p_Subdomain = [], p_ServerURL = []\<rparr>
       ''example.com''
       [\<lparr>rec_ID = ''1'', rec_Type = ''TXT'', rec_Name = ''_acme-challenge.a'',
         rec_Value = ''v1'', rec_TTL = 120, rec_Priority = 0\<rparr>,
        \<lparr>rec_ID = ''2'', rec_Type = ''TXT'', rec_Name = ''x'',
         rec_Value = ''v2'', rec_TTL = 120, rec_Priority = 0\<rparr>,
        \<lparr>rec_ID = ''3'', rec_Type = ''TXT'', rec_Name = ''_acme-challenge.a'',
         rec_Value = ''v3'', rec_TTL = 120, rec_Priority = 0\<rparr>]
       []
     = (Panics SliceBoundsOutOfRange,
        [\<lparr>req_Method = ''POST'', req_URL = ''https://auth.example/update'',
          req_Header = [(''X-Api-User'', ''ua''), (''X-Api-Key'', ''pa'')],
          req_Body = JObject [(''subdomain'', ''sda''), (''txt'', ''v1'')]\<rparr>])"
    by (simp add: AppendRecords_old_def selectAccount_old_def updateTxtValue_old_def
        json_Marshal_def http_NewRequest_def test_world_def HasPrefix_def acmePrefix_def Let_def)
  have nil: "AppendRecords w' p' zone' [] sent' = (Returns ([], None), sent')"
    by (simp add: AppendRecords_def)
  have nil_old: "AppendRecords_old w' p' zone' [] sent' = (Returns ([], None), sent')"
    by (simp add: AppendRecords_old_def)
  from ap len stops panics panics_old nil nil_old
    AppendRecords_Cons [of w' p' zone' rr recs sent']
    AppendRecords_old_Cons [of w' p' zone' ro recs_old sent']
  show ?thesis
    by (simp only: simp_thms)
qed

text \<open>
  Two runs of three records. With one account for all names the second request is
  answered with status 500: the first record is returned, normalized, with the error
  of the second, and two requests went out. With a table that has no entry for the
  second name: the first record is returned with the error naming the missing key,
  and one request went out. Neither run tries the third record.
\<close>

theorem AppendRecords_first_failure_witness:
  "AppendRecords test_world
     \<lparr>p_Configs = None, p_Username = ''u'', p_Password = ''p'', p_Subdomain = ''sd'',
      p_ServerURL = ''https://auth.example''\<rparr>
     ''example.com.''
     [\<lparr>rr_Name = ''_acme-challenge'', rr_TTL = 120, rr_Type = ''TXT'', rr_Data = ''v1''\<rparr>,
      \<lparr>rr_Name = ''_acme-challenge'', rr_TTL = 120, rr_Type = ''TXT'', rr_Data = ''v2''\<rparr>,
      \<lparr>rr_Name = ''_acme-challenge'', rr_TTL = 120, rr_Type = ''TXT'', rr_Data = ''v3''\<rparr>] []
   = (Returns
        ([\<lparr>rr_Name = ''_acme-challenge'', rr_TTL = 0, rr_Type = ''TXT'', rr_Data = ''v1''\<rparr>],
         Some (ResponseCode 500)),
      [\<lparr>req_Method = ''POST'', req_URL = ''https://auth.example/update'',
        req_Header = [(''X-Api-User'', ''u''), (''X-Api-Key'', ''p''),
                      (''Content-Type'', ''application/json'')],
        req_Body = JObject [(''subdomain'', ''sd''), (''txt'', ''v1'')]\<rparr>,
       \<lparr>req_Method = ''POST'', req_URL = ''https://auth.example/update'',
        req_Header = [(''X-Api-User'', ''u''), (''X-Api-Key'', ''p''),
                      (''Content-Type'', ''application/json'')],
        req_Body = JObject [(''subdomain'', ''sd''), (''txt'', ''v2'')]\<rparr>])
   \<and> AppendRecords test_world
     \<lparr>p_Configs = Some [''a.example.com'' \<mapsto>
          \<lparr>cfg_Username = ''ua'', cfg_Password = ''pa'', cfg_Subdomain = ''sda'',
           cfg_FullDomain = ''fda'', cfg_ServerURL = ''https://auth.example''\<rparr>],
      p_Username = ''u'', p_Password = ''p'', p_Subdomain = ''sd'',
      p_ServerURL = ''https://auth.example''\<rparr>
     ''example.com''
     [\<lparr>rr_Name = ''_acme-challenge.a'', rr_TTL = 120, rr_Type = ''TXT'', rr_Data = ''v1''\<rparr>,
      \<lparr>rr_Name = ''_acme-challenge.c'', rr_TTL = 120, rr_Type = ''TXT'', rr_Data = ''v2''\<rparr>,
      \<lparr>rr_Name = ''_acme-challenge.a'', rr_TTL = 120, rr_Type = ''TXT'', rr_Data = ''v3''\<rparr>] []
   = (Returns
        ([\<lparr>rr_Name = ''_acme-challenge.a'', rr_TTL = 0, rr_Type = ''TXT'', rr_Data = ''v1''\<rparr>],
         Some (ConfigNotFound ''c.example.com'')),
      [\<lparr>req_Method = ''POST'', req_URL = ''https://auth.example/update'',
        req_Header = [(''X-Api-User'', ''ua''), (''X-Api-Key'', ''pa''),
                      (''Content-Type'', ''application/json'')],
        req_Body = JObject [(''subdomain'', ''sda''), (''txt'', ''v1'')]\<rparr>])"
proof -
  let ?p = "\<lparr>p_Configs = None, p_Username = ''u'', p_Password = ''p'', p_Subdomain = ''sd'',
      p_ServerURL = ''https://auth.example''\<rparr>"
  let ?acc = "\<lparr>acc_Username = ''u'', acc_Password = ''p'', acc_Subdomain = ''sd'',
      acc_ServerURL = ''https://auth.example''\<rparr>"
  let ?r1 = "\<lparr>rr_Name = ''_acme-challenge'', rr_TTL = 120, rr_Type = ''TXT'', rr_Data = ''v1''\<rparr>"
  let ?r2 = "\<lparr>rr_Name = ''_acme-challenge'', rr_TTL = 120, rr_Type = ''TXT'', rr_Data = ''v2''\<rparr>"
  let ?r3 = "\<lparr>rr_Name = ''_acme-challenge'', rr_TTL = 120, rr_Type = ''TXT'', rr_Data = ''v3''\<rparr>"
  let ?q1 = "\<lparr>req_Method = ''POST'', req_URL = ''https://auth.example/update'',
        req_Header = [(''X-Api-User'', ''u''), (''X-Api-Key'', ''p''),
                      (''Content-Type'', ''application/json'')],
        req_Body = JObject [(''subdomain'', ''sd''), (''txt'', ''v1'')]\<rparr>"
  let ?q2 = "\<lparr>req_Method = ''POST'', req_URL = ''https://auth.example/update'',
        req_Header = [(''X-Api-User'', ''u''), (''X-Api-Key'', ''p''),
                      (''Content-Type'', ''application/json'')],
        req_Body = JObject [(''subdomain'', ''sd''), (''txt'', ''v2'')]\<rparr>"
  let ?t = "\<lparr>p_Configs = Some [''a.example.com'' \<mapsto>
          \<lparr>cfg_Username = ''ua'', cfg_Password = ''pa'', cfg_Subdomain = ''sda'',
           cfg_FullDomain = ''fda'', cfg_ServerURL = ''https://auth.example''\<rparr>],
      p_Username = ''u'', p_Password = ''p'', p_Subdomain = ''sd'',
      p_ServerURL = ''https://auth.example''\<rparr>"
  let ?a1 = "\<lparr>rr_Name = ''_acme-challenge.a'', rr_TTL = 120, rr_Type = ''TXT'', rr_Data = ''v1''\<rparr>"
  let ?c2 = "\<lparr>rr_Name = ''_acme-challenge.c'', rr_TTL = 120, rr_Type = ''TXT'', rr_Data = ''v2''\<rparr>"
  let ?a3 = "\<lparr>rr_Name = ''_acme-challenge.a'', rr_TTL = 120, rr_Type = ''TXT'', rr_Data = ''v3''\<rparr>"
  let ?k1 = "\<lparr>req_Method = ''POST'', req_URL = ''https://auth.example/update'',
        req_Header = [(''X-Api-User'', ''ua''), (''X-Api-Key'', ''pa''),
                      (''Content-Type'', ''application/json'')],
        req_Body = JObject [(''subdomain'', ''sda''), (''txt'', ''v1'')]\<rparr>"
  have first: "AppendRecords test_world ?p ''example.com.'' [?r1] [] =
      (Returns ([?r1\<lparr>rr_TTL := 0\<rparr>], None), [?q1])"
    by (simp add: AppendRecords_def selectAccount_def updateTxtValue_def json_Marshal_def
        http_NewRequest_def test_world_def HasPrefix_def Let_def)
  have is_txt: "rr_Type ?r2 = ''TXT''" by simp
  have selected: "selectAccount ?p ''example.com.'' (rr_Name ?r2) = Inr ?acc"
    by (simp add: selectAccount_def)
  have refused: "updateTxtValue test_world ?acc (rr_Data ?r2) [?q1] =
      (Returns (Some (ResponseCode 500)), [?q1, ?q2])"
    by (simp add: updateTxtValue_def json_Marshal_def http_NewRequest_def test_world_def
        HasPrefix_def Let_def)
  have run1: "AppendRecords test_world ?p ''example.com.'' ([?r1] @ ?r2 # [?r3]) [] =
      (Returns ([?r1\<lparr>rr_TTL := 0\<rparr>], Some (ResponseCode 500)), [?q1, ?q2])"
    using AppendRecords_first_failure [where r = ?r2 and post = "[?r3]"
        and err = "ResponseCode 500" and acc = ?acc and sent_r = "[?q1, ?q2]"
        and pn = NilPointerDereference and w' = test_world and p' = ?p
        and zone' = "''example.com.''" and sent' = "[]" and rr = ?r2 and recs = "[]"
        and ro = "\<lparr>rec_ID = [], rec_Type = ''A'', rec_Name = [], rec_Value = [],
                   rec_TTL = 0, rec_Priority = 0\<rparr>" and recs_old = "[]",
        OF first]
      is_txt selected refused
    by blast
  have first_t: "AppendRecords test_world ?t ''example.com'' [?a1] [] =
      (Returns ([?a1\<lparr>rr_TTL := 0\<rparr>], None), [?k1])"
    by (simp add: AppendRecords_def selectAccount_def updateTxtValue_def json_Marshal_def
        http_NewRequest_def test_world_def HasPrefix_def TrimPrefix_def Trim_def
        AbsoluteName_def acmePrefix_def Let_def)
  have is_txt_t: "rr_Type ?c2 = ''TXT''" by simp
  have missing: "selectAccount ?t ''example.com'' (rr_Name ?c2) =
      Inl (ConfigNotFound ''c.example.com'')"
    by (simp add: selectAccount_def TrimPrefix_def HasPrefix_def Trim_def AbsoluteName_def
        acmePrefix_def Let_def)
  have run2: "AppendRecords test_world ?t ''example.com'' ([?a1] @ ?c2 # [?a3]) [] =
      (Returns ([?a1\<lparr>rr_TTL := 0\<rparr>], Some (ConfigNotFound ''c.example.com'')), [?k1])"
    using AppendRecords_first_failure [where r = ?c2 and post = "[?a3]"
        and err = "ConfigNotFound ''c.example.com''" and acc = ?acc and sent_r = "[]"
        and pn = NilPointerDereference and w' = test_world and p' = ?p
        and zone' = "''example.com.''" and sent' = "[]" and rr = ?r2 and recs = "[]"
        and ro = "\<lparr>rec_ID = [], rec_Type = ''A'', rec_Name = [], rec_Value = [],
                   rec_TTL = 0, rec_Priority = 0\<rparr>" and recs_old = "[]",
        OF first_t]
      is_txt_t missing
    by blast
  from run1 run2 show ?thesis
    by simp
qed

text \<open>A batch that goes through holds \<open>TXT\<close> records only.\<close>

lemma AppendRecords_loop_all_TXT:
  "AppendRecords_loop w p zone xs acc sent = (Returns (acc', None), sent')
   \<Longrightarrow> rr \<in> set xs \<Longrightarrow> rr_Type rr = ''TXT''"
proof (induction xs arbitrary: acc sent)
  case Nil
  then show ?case by simp
next
  case (Cons x xs)
  then show ?case
    by (fastforce split: if_splits sum.splits prod.splits outcome.splits option.splits)
qed

text \<open>
  C7: a record whose type is not \<open>TXT\<close> fails the batch at that record with the error
  "only supports adding TXT records". When the records before it have gone through,
  the batch returns what they applied and that error, and the log is the one they left:
  no request is made for the record. No account is selected for it either: at the
  head of a batch the record gives this error in every world, for every provider and
  zone, also where \<open>selectAccount\<close> would fail. And a batch that holds such a record
  anywhere never returns without an error.
\<close>

theorem AppendRecords_rejects_non_TXT:
  assumes ok: "AppendRecords w p zone pre sent = (Returns (applied, None), sent1)"
    and other: "rr_Type r \<noteq> ''TXT''"
  shows "AppendRecords w p zone (pre @ r # post) sent =
           (Returns (applied, Some OnlyTXTSupported), sent1)
         \<and> AppendRecords w' p' zone' (r # post) sent' =
             (Returns ([], Some OnlyTXTSupported), sent')
         \<and> AppendRecords w' p' zone' (xs @ r # post) sent' \<noteq> (Returns (res, None), sent2)
         \<and> Error OnlyTXTSupported =
             ''joohoi_acme_dns provider only supports adding TXT records''"
proof -
  from ok have l: "AppendRecords_loop w p zone pre [] sent = (Returns (applied, None), sent1)"
    by (simp add: AppendRecords_def)
  from AppendRecords_loop_append [OF l, of "r # post"] other
  have reached: "AppendRecords w p zone (pre @ r # post) sent =
           (Returns (applied, Some OnlyTXTSupported), sent1)"
    by (simp add: AppendRecords_def)
  from other have head: "AppendRecords w' p' zone' (r # post) sent' =
             (Returns ([], Some OnlyTXTSupported), sent')"
    by (simp add: AppendRecords_def)
  have never: "AppendRecords w' p' zone' (xs @ r # post) sent' \<noteq> (Returns (res, None), sent2)"
  proof
    assume "AppendRecords w' p' zone' (xs @ r # post) sent' = (Returns (res, None), sent2)"
    then have "AppendRecords_loop w' p' zone' (xs @ r # post) [] sent' =
        (Returns (res, None), sent2)"
      by (simp add: AppendRecords_def)
    from AppendRecords_loop_all_TXT [OF this, of r] have "rr_Type r = ''TXT''"
      by simp
    with other show False by simp
  qed
  from reached head never show ?thesis by simp
qed

theorem AppendRecords_rejects_non_TXT_witness:
  "AppendRecords test_world
     \<lparr>p_Configs = None, p_Username = ''u'', p_Password = ''p'', p_Subdomain = ''sd'',
      p_ServerURL = ''https://auth.example''\<rparr>
     ''example.com.''
     [\<lparr>rr_Name = ''_acme-challenge'', rr_TTL = 120, rr_Type = ''TXT'', rr_Data = ''v1''\<rparr>,
      \<lparr>rr_Name = ''www'', rr_TTL = 120, rr_Type = ''A'', rr_Data = ''192.0.2.1''\<rparr>,
      \<lparr>rr_Name = ''_acme-challenge'', rr_TTL = 120, rr_Type = ''TXT'', rr_Data = ''v3''\<rparr>] []
   = (Returns
        ([\<lparr>rr_Name = ''_acme-challenge'', rr_TTL = 0, rr_Type = ''TXT'', rr_Data = ''v1''\<rparr>],
         Some OnlyTXTSupported),
      [\<lparr>req_Method = ''POST'', req_URL = ''https://auth.example/update'',
        req_Header = [(''X-Api-User'', ''u''), (''X-Api-Key'', ''p''),
                      (''Content-Type'', ''application/json'')],
        req_Body = JObject [(''subdomain'', ''sd''), (''txt'', ''v1'')]\<rparr>])"
proof -
  let ?p = "\<lparr>p_Configs = None, p_Username = ''u'', p_Password = ''p'', p_Subdomain = ''sd'',
      p_ServerURL = ''https://auth.example''\<rparr>"
  let ?r1 = "\<lparr>rr_Name = ''_acme-challenge'', rr_TTL = 120, rr_Type = ''TXT'', rr_Data = ''v1''\<rparr>"
  let ?r2 = "\<lparr>rr_Name = ''www'', rr_TTL = 120, rr_Type = ''A'', rr_Data = ''192.0.2.1''\<rparr>"
  let ?r3 = "\<lparr>rr_Name = ''_acme-challenge'', rr_TTL = 120, rr_Type = ''TXT'', rr_Data = ''v3''\<rparr>"
  let ?q1 = "\<lparr>req_Method = ''POST'', req_URL = ''https://auth.example/update'',
        req_Header = [(''X-Api-User'', ''u''), (''X-Api-Key'', ''p''),
                      (''Content-Type'', ''application/json'')],
        req_Body = JObject [(''subdomain'', ''sd''), (''txt'', ''v1'')]\<rparr>"
  have first: "AppendRecords test_world ?p ''example.com.'' [?r1] [] =
      (Returns ([?r1\<lparr>rr_TTL := 0\<rparr>], None), [?q1])"
    by (simp add: AppendRecords_def selectAccount_def updateTxtValue_def json_Marshal_def
        http_NewRequest_def test_world_def HasPrefix_def Let_def)
  have other: "rr_Type ?r2 \<noteq> ''TXT''" by simp
  from AppendRecords_rejects_non_TXT [OF first other, of "[?r3]"] show ?thesis
    by simp
qed

subsection \<open>SetRecords, DeleteRecords, GetRecords\<close>

text \<open>
  C4: \<open>SetRecords\<close> is \<open>AppendRecords\<close>: for every world, provider, zone, batch and
  log, the same result (records and error, or panic) and the same log of requests.
\<close>

theorem SetRecords_is_AppendRecords:
  "SetRecords w p zone recs sent = AppendRecords w p zone recs sent"
  by (simp add: SetRecords_def)

text \<open>
  C9: \<open>DeleteRecords\<close> returns no records and no error, whatever the zone and the
  records, and leaves the log of requests as it found it; so does the older revision.
\<close>

theorem DeleteRecords_does_nothing:
  "DeleteRecords w p zone recs sent = (Returns ([], None), sent)
   \<and> DeleteRecords_old w p zone recs' sent = (Returns ([], None), sent)"
  by (simp add: DeleteRecords_def DeleteRecords_old_def)

text \<open>
  C10: \<open>GetRecords\<close> returns no records and the error "does not support getting
  records", whatever the zone, and leaves the log of requests as it found it.
\<close>

theorem GetRecords_not_supported:
  "GetRecords w p zone sent = (Returns ([], Some GetNotSupported), sent)
   \<and> Error GetNotSupported = ''acmedns provider does not support getting records''"
  by (simp add: GetRecords_def)

end
